theory Spec2Isabelle
  imports Complex_Main "HOL-Library.Char_ord" "HOL-Library.List_Lexorder"
begin

section \<open>Values exchanged with the providers\<close>

text \<open>
  The handlers of \<^verbatim>\<open>app.py\<close> work on what the provider clients hand back: decoded
  JSON, that is Python's \<^verbatim>\<open>None\<close>, \<^verbatim>\<open>bool\<close>, numbers, \<^verbatim>\<open>str\<close>, \<^verbatim>\<open>list\<close> and
  \<^verbatim>\<open>dict\<close> with string keys. A number is the finite value it denotes (an \<^verbatim>\<open>int\<close> and a
  \<^verbatim>\<open>float\<close> compare by value in Python, and no arithmetic is done on them here); the
  non-finite floats are not values of this type. A \<^verbatim>\<open>dict\<close> is an association list read
  with \<^const>\<open>map_of\<close>, so a key has one value. A \<^verbatim>\<open>str\<close> is its list of characters,
  taken among the first 256 code points.
\<close>

datatype json =
    JNull
  | JBool bool
  | JNum real
  | JStr string
  | JList "json list"
  | JDict "(string \<times> json) list"

text \<open>
  Exceptions, all of them instances of Python's \<^verbatim>\<open>Exception\<close>. \<open>HTTPException\<close> is
  FastAPI's (status code and detail); it derives from \<^verbatim>\<open>Exception\<close> and from neither
  \<^verbatim>\<open>ApiError\<close> nor \<^verbatim>\<open>IndexError\<close>. \<open>ApiError\<close> is
  \<^verbatim>\<open>openrouteservice.exceptions.ApiError\<close>, told apart by the provider's message.
  \<open>KeyError\<close> carries the missing key, \<open>NameError\<close> the unbound name. \<open>OtherException\<close> is
  any instance of another class. What \<^verbatim>\<open>str(e)\<close> prints for an exception is left to the
  environment below.
\<close>

datatype exn =
    HTTPException nat string
  | ApiError string
  | IndexError
  | KeyError json
  | TypeError
  | AttributeError
  | NameError string
  | OtherException string

subsection \<open>Truth value, subscripts, comparison\<close>

text \<open>\<^verbatim>\<open>not x\<close> is \<open>\<not> truthy x\<close>: empty containers, zero, \<^verbatim>\<open>False\<close> and \<^verbatim>\<open>None\<close> are false.\<close>

fun truthy :: "json \<Rightarrow> bool" where
  "truthy JNull = False"
| "truthy (JBool b) = b"
| "truthy (JNum x) = (x \<noteq> 0)"
| "truthy (JStr s) = (s \<noteq> [])"
| "truthy (JList xs) = (xs \<noteq> [])"
| "truthy (JDict kvs) = (kvs \<noteq> [])"

text \<open>
  \<^verbatim>\<open>x['k']\<close> with a string key: a \<^verbatim>\<open>dict\<close> looks the key up and raises \<^verbatim>\<open>KeyError\<close>
  when it is missing; a \<^verbatim>\<open>list\<close> or a \<^verbatim>\<open>str\<close> rejects a string index and the other
  values are not subscriptable, all with \<^verbatim>\<open>TypeError\<close>.
\<close>

fun getitem_key :: "json \<Rightarrow> string \<Rightarrow> exn + json" where
  "getitem_key (JDict kvs) k =
     (case map_of kvs k of None \<Rightarrow> Inl (KeyError (JStr k)) | Some v \<Rightarrow> Inr v)"
| "getitem_key v k = Inl TypeError"

text \<open>
  \<^verbatim>\<open>x[i]\<close> with a literal index \<open>i \<ge> 0\<close> (the source uses \<^verbatim>\<open>[0]\<close> and \<^verbatim>\<open>[1]\<close> only):
  a \<^verbatim>\<open>list\<close> or a \<^verbatim>\<open>str\<close> raises \<^verbatim>\<open>IndexError\<close> out of range, a \<^verbatim>\<open>str\<close> yields the
  one-character string, a \<^verbatim>\<open>dict\<close> has string keys only and so raises \<^verbatim>\<open>KeyError\<close>.
\<close>

fun getitem_idx :: "json \<Rightarrow> nat \<Rightarrow> exn + json" where
  "getitem_idx (JList xs) i = (if i < length xs then Inr (xs ! i) else Inl IndexError)"
| "getitem_idx (JStr s) i = (if i < length s then Inr (JStr [s ! i]) else Inl IndexError)"
| "getitem_idx (JDict kvs) i = Inl (KeyError (JNum (of_nat i)))"
| "getitem_idx v i = Inl TypeError"

text \<open>\<^verbatim>\<open>bool\<close> is a subclass of \<^verbatim>\<open>int\<close>: \<^verbatim>\<open>True\<close> counts as 1 and \<^verbatim>\<open>False\<close> as 0.\<close>

fun num_of :: "json \<Rightarrow> real option" where
  "num_of (JNum x) = Some x"
| "num_of (JBool b) = Some (if b then 1 else 0)"
| "num_of v = None"

text \<open>
  \<^verbatim>\<open>a == b\<close>: numbers by value, strings and lists element by element, dicts as maps
  (same keys, equal values), anything else unequal.
\<close>

fun py_eq :: "json \<Rightarrow> json \<Rightarrow> bool"
  and py_eq_list :: "json list \<Rightarrow> json list \<Rightarrow> bool"
  and py_eq_items :: "(string \<times> json) list \<Rightarrow> (string \<times> json) list \<Rightarrow> (string \<times> json) list \<Rightarrow> bool"
where
  "py_eq JNull b = (b = JNull)"
| "py_eq (JBool p) b = (num_of b = Some (if p then 1 else 0))"
| "py_eq (JNum x) b = (num_of b = Some x)"
| "py_eq (JStr s) b = (b = JStr s)"
| "py_eq (JList xs) b = (case b of JList ys \<Rightarrow> py_eq_list xs ys | _ \<Rightarrow> False)"
| "py_eq (JDict m) b =
     (case b of JDict n \<Rightarrow> set (map fst m) = set (map fst n) \<and> py_eq_items m m n | _ \<Rightarrow> False)"
| "py_eq_list [] ys = (ys = [])"
| "py_eq_list (x # xs) ys =
     (case ys of [] \<Rightarrow> False | y # ys' \<Rightarrow> py_eq x y \<and> py_eq_list xs ys')"
| "py_eq_items [] m n = True"
| "py_eq_items ((k, v) # kvs) m n =
     ((case map_of n k of
         None \<Rightarrow> False
       | Some w \<Rightarrow> if map_of m k = Some v then py_eq v w else True)
      \<and> py_eq_items kvs m n)"

text \<open>
  \<^verbatim>\<open>a < b\<close> and \<^verbatim>\<open>a > b\<close>. Numbers compare by value and strings lexicographically; two
  lists compare at the first position where their elements are not \<^verbatim>\<open>==\<close>, and by
  length when there is none; every other pair of operands raises \<^verbatim>\<open>TypeError\<close>.
\<close>

datatype cmp_op = Lt | Gt

fun cmp_holds :: "cmp_op \<Rightarrow> 'a::linorder \<Rightarrow> 'a \<Rightarrow> bool" where
  "cmp_holds Lt x y = (x < y)"
| "cmp_holds Gt x y = (y < x)"

fun py_compare :: "cmp_op \<Rightarrow> json \<Rightarrow> json \<Rightarrow> exn + bool"
  and py_compare_list :: "cmp_op \<Rightarrow> json list \<Rightarrow> json list \<Rightarrow> exn + bool"
where
  "py_compare op (JNum x) b =
     (case num_of b of Some y \<Rightarrow> Inr (cmp_holds op x y) | None \<Rightarrow> Inl TypeError)"
| "py_compare op (JBool p) b =
     (case num_of b of
        Some y \<Rightarrow> Inr (cmp_holds op (if p then 1 else 0) y)
      | None \<Rightarrow> Inl TypeError)"
| "py_compare op (JStr s) b =
     (case b of JStr t \<Rightarrow> Inr (cmp_holds op s t) | _ \<Rightarrow> Inl TypeError)"
| "py_compare op (JList xs) b =
     (case b of JList ys \<Rightarrow> py_compare_list op xs ys | _ \<Rightarrow> Inl TypeError)"
| "py_compare op JNull b = Inl TypeError"
| "py_compare op (JDict m) b = Inl TypeError"
| "py_compare_list op [] ys = Inr (op = Lt \<and> ys \<noteq> [])"
| "py_compare_list op (x # xs) ys =
     (case ys of
        [] \<Rightarrow> Inr (op = Gt)
      | y # ys' \<Rightarrow> if py_eq x y then py_compare_list op xs ys' else py_compare op x y)"

text \<open>\<^verbatim>\<open>needle in haystack\<close> on strings: the needle occurs as a contiguous run.\<close>

fun str_contains :: "string \<Rightarrow> string \<Rightarrow> bool" where
  "str_contains needle [] = (needle = [])"
| "str_contains needle (c # cs) =
     (take (length needle) (c # cs) = needle \<or> str_contains needle cs)"

text \<open>
  \<^verbatim>\<open>s.strip()\<close> removes leading and trailing whitespace: the characters 9 to 13, 28 to
  32, 133 and 160 among the first 256.
\<close>

definition is_space :: "char \<Rightarrow> bool" where
  "is_space c = ((of_char c :: nat) \<in> {9, 10, 11, 12, 13, 28, 29, 30, 31, 32, 133, 160})"

definition strip :: "string \<Rightarrow> string" where
  "strip s = rev (dropWhile is_space (rev (dropWhile is_space s)))"

section \<open>Effects: provider calls and exceptions\<close>

text \<open>
  A handler runs against the outside world through calls of provider clients. A
  computation takes the calls made so far and returns its outcome (\<open>Inl\<close> an exception
  that was raised, \<open>Inr\<close> the value) with the calls extended by its own. A provider may
  answer differently from one call to the next, so its answer depends on the calls made
  before it.
\<close>

datatype call =
    Call_pelias_search string
  | Call_directions "json list" string string
  | Call_ChatCompletion_create string "(string \<times> string) list" nat real
  | Call_requests_post string string json

type_synonym 'a io = "call list \<Rightarrow> (exn + 'a) \<times> call list"

definition ret :: "'a \<Rightarrow> 'a io" where
  "ret x = (\<lambda>calls. (Inr x, calls))"

definition raise_exc :: "exn \<Rightarrow> 'a io" where
  "raise_exc e = (\<lambda>calls. (Inl e, calls))"

definition lift :: "exn + 'a \<Rightarrow> 'a io" where
  "lift r = (\<lambda>calls. (r, calls))"

definition bind_io :: "'a io \<Rightarrow> ('a \<Rightarrow> 'b io) \<Rightarrow> 'b io" where
  "bind_io m f = (\<lambda>calls. case m calls of (Inl e, calls') \<Rightarrow> (Inl e, calls') | (Inr x, calls') \<Rightarrow> f x calls')"

text \<open>\<^verbatim>\<open>try: m  except ... as e: h e\<close>; a handler that does not match re-raises.\<close>

definition try_except :: "'a io \<Rightarrow> (exn \<Rightarrow> 'a io) \<Rightarrow> 'a io" where
  "try_except m h = (\<lambda>calls. case m calls of (Inl e, calls') \<Rightarrow> h e calls' | (Inr x, calls') \<Rightarrow> (Inr x, calls'))"

definition provider_call :: "call \<Rightarrow> (call list \<Rightarrow> exn + 'a) \<Rightarrow> 'a io" where
  "provider_call c answer = (\<lambda>calls. (answer calls, calls @ [c]))"

text \<open>Sequencing of steps that touch no provider: the first exception ends the run.\<close>

definition bind_r :: "exn + 'a \<Rightarrow> ('a \<Rightarrow> exn + 'b) \<Rightarrow> exn + 'b" where
  "bind_r r f = (case r of Inl e \<Rightarrow> Inl e | Inr x \<Rightarrow> f x)"

section \<open>The request models and the environment of \<^verbatim>\<open>app.py\<close>\<close>

record RouteRequest =
  origin :: string
  destination :: string

record QueryRequest =
  question :: string

text \<open>
  What \<^verbatim>\<open>openai.ChatCompletion.create\<close> returns, as far as the handler reads it: the
  choices, each one the \<^verbatim>\<open>message.content\<close> it holds (\<open>None\<close> when it holds no text).
\<close>

record chat_completion =
  choices :: "string option list"

text \<open>An HTTP response object: its status code, and what \<^verbatim>\<open>.json()\<close> gives or raises.\<close>

record http_response =
  status_code :: int
  json_result :: "exn + json"

text \<open>
  Everything outside \<^verbatim>\<open>app.py\<close> that a handler reaches: the two keys read from the
  process environment, the clients of the providers, and \<^verbatim>\<open>str(e)\<close> on an exception,
  whose text is fixed by the library that defines the exception's class.
  \<open>requests_post\<close> is the answer the scoring endpoint gives to a POST.
\<close>

record env =
  openai_api_key :: "string option"
  INFERELL_API_KEY :: "string option"
  pelias_search :: "call list \<Rightarrow> string \<Rightarrow> exn + json"
  directions :: "call list \<Rightarrow> json list \<Rightarrow> string \<Rightarrow> string \<Rightarrow> exn + json"
  ChatCompletion_create ::
    "call list \<Rightarrow> string \<Rightarrow> (string \<times> string) list \<Rightarrow> nat \<Rightarrow> real \<Rightarrow> exn + chat_completion"
  requests_post :: "call list \<Rightarrow> string \<Rightarrow> string \<Rightarrow> json \<Rightarrow> exn + http_response"
  str_exc :: "exn \<Rightarrow> string"

text \<open>
  The names bound at module level: by the import statements of lines 1 to 7, by the
  assignments and by the definitions. A function body that reads any other name, one
  that is neither its local nor a builtin, raises \<^verbatim>\<open>NameError\<close>.
\<close>

definition module_globals :: "string list" where
  "module_globals =
     [''os'', ''FastAPI'', ''HTTPException'', ''Query'', ''BaseModel'', ''openai'',
      ''openrouteservice'', ''load_dotenv'', ''CORSMiddleware'', ''ors_key'', ''ors_client'',
      ''app'', ''origins'', ''RouteRequest'', ''QueryRequest'', ''read_root'',
      ''get_safe_route'', ''ask_ai'', ''get_safety_score'', ''get_real_time_alerts'']"

definition load_global :: "string \<Rightarrow> exn + unit" where
  "load_global name = (if name \<in> set module_globals then Inr () else Inl (NameError name))"

section \<open>\<^verbatim>\<open>POST /get-safe-route\<close>\<close>

text \<open>
  The calls of \<^verbatim>\<open>print\<close> write a line to standard output and leave the outcome as it
  is; they are left out.
\<close>

definition coordinates_not_found :: string where
  "coordinates_not_found = ''Could not find valid coordinates for the specified addresses.''"

definition too_remote :: string where
  "too_remote =
     ''Could not find a route to the specified destination. It may be too remote for routing.''"

text \<open>Line 52: \<^verbatim>\<open>not origin_search['features'] or not destination_search['features']\<close>.\<close>

definition features_missing :: "json \<Rightarrow> json \<Rightarrow> exn + bool" where
  "features_missing origin_search destination_search =
     bind_r (getitem_key origin_search ''features'') (\<lambda>fs.
       if \<not> truthy fs then Inr True
       else bind_r (getitem_key destination_search ''features'') (\<lambda>gs. Inr (\<not> truthy gs)))"

text \<open>Lines 56, 57 and 85: \<^verbatim>\<open>x['features'][0]['geometry']['coordinates']\<close>.\<close>

definition geometry_coordinates :: "json \<Rightarrow> exn + json" where
  "geometry_coordinates f = bind_r (getitem_key f ''geometry'') (\<lambda>g. getitem_key g ''coordinates'')"

definition first_feature_coordinates :: "json \<Rightarrow> exn + json" where
  "first_feature_coordinates x =
     bind_r (getitem_key x ''features'') (\<lambda>fs.
     bind_r (getitem_idx fs 0) geometry_coordinates)"

text \<open>Lines 90 to 94, the operands evaluated from left to right.\<close>

definition alerts_of :: "json \<Rightarrow> json \<Rightarrow> exn + json" where
  "alerts_of origin_coords destination_coords =
     bind_r (getitem_idx origin_coords 1) (\<lambda>o1.
     bind_r (getitem_idx destination_coords 1) (\<lambda>d1.
     bind_r (py_compare Gt o1 d1) (\<lambda>north.
     bind_r (getitem_idx origin_coords 0) (\<lambda>o0.
     bind_r (getitem_idx destination_coords 0) (\<lambda>d0.
     bind_r (py_compare Lt o0 d0) (\<lambda>west.
     bind_r (getitem_idx origin_coords 1) (\<lambda>o1'.
     bind_r (getitem_idx destination_coords 1) (\<lambda>d1'.
     bind_r (py_compare Lt o1' d1') (\<lambda>south.
     Inr (JDict
       [(''police_stations'', JNum (if north then 3 else 2)),
        (''public_facilities'', JNum (if west then 5 else 3)),
        (''crowd_density'', JStr (if south then ''High'' else ''Medium''))]))))))))))"

text \<open>Lines 69 to 79: the handler around the call of \<^verbatim>\<open>directions\<close>.\<close>

definition directions_handler :: "env \<Rightarrow> exn \<Rightarrow> json io" where
  "directions_handler env e =
     (case e of
        ApiError m \<Rightarrow>
          (let error_message = str_exc env e in
           if str_contains ''Could not find routable point within a radius'' error_message
           then raise_exc (HTTPException 404 too_remote)
           else raise_exc (HTTPException 500 (''Error generating route: '' @ error_message)))
      | _ \<Rightarrow> raise_exc e)"

text \<open>Lines 47 to 101: the body of the outer \<^verbatim>\<open>try\<close>.\<close>

definition get_safe_route_body :: "env \<Rightarrow> RouteRequest \<Rightarrow> json io" where
  "get_safe_route_body env route_request =
     bind_io (provider_call (Call_pelias_search (origin route_request))
                (\<lambda>calls. pelias_search env calls (origin route_request))) (\<lambda>origin_search.
     bind_io (provider_call (Call_pelias_search (destination route_request))
                (\<lambda>calls. pelias_search env calls (destination route_request))) (\<lambda>destination_search.
     bind_io (lift (features_missing origin_search destination_search)) (\<lambda>missing.
     if missing then raise_exc (HTTPException 404 coordinates_not_found)
     else
     bind_io (lift (first_feature_coordinates origin_search)) (\<lambda>origin_coords.
     bind_io (lift (first_feature_coordinates destination_search)) (\<lambda>destination_coords.
     bind_io (try_except
                (provider_call
                   (Call_directions [origin_coords, destination_coords] ''driving-car'' ''geojson'')
                   (\<lambda>calls. directions env calls [origin_coords, destination_coords]
                             ''driving-car'' ''geojson''))
                (directions_handler env)) (\<lambda>routes.
     bind_io (lift (getitem_key routes ''features'')) (\<lambda>fs.
     if \<not> truthy fs
     then raise_exc (HTTPException 404 ''No route found between the specified locations.'')
     else
     bind_io (lift (first_feature_coordinates routes)) (\<lambda>route_coords.
     bind_io (lift (alerts_of origin_coords destination_coords)) (\<lambda>alerts.
     ret (JDict
       [(''origin'', JDict [(''address'', JStr (origin route_request)),
                            (''coordinates'', origin_coords)]),
        (''destination'', JDict [(''address'', JStr (destination route_request)),
                                 (''coordinates'', destination_coords)]),
        (''route'', route_coords),
        (''alerts'', alerts)]))))))))))"

text \<open>
  Lines 102 to 108: the handlers of the outer \<^verbatim>\<open>try\<close>, tried in the order written.
  The last one takes every exception the first two leave, an \<open>HTTPException\<close> raised in
  the body among them.
\<close>

definition get_safe_route_handler :: "env \<Rightarrow> exn \<Rightarrow> json io" where
  "get_safe_route_handler env e =
     (case e of
        ApiError m \<Rightarrow> raise_exc (HTTPException 500 (''Error generating route: '' @ str_exc env e))
      | IndexError \<Rightarrow> raise_exc (HTTPException 404 coordinates_not_found)
      | _ \<Rightarrow> raise_exc (HTTPException 500 (''Unexpected error occurred: '' @ str_exc env e)))"

definition get_safe_route :: "env \<Rightarrow> RouteRequest \<Rightarrow> json io" where
  "get_safe_route env route_request =
     try_except (get_safe_route_body env route_request) (get_safe_route_handler env)"

section \<open>\<^verbatim>\<open>POST /ask-ai\<close>\<close>

text \<open>\<^verbatim>\<open>not openai.api_key\<close>: the key is \<^verbatim>\<open>None\<close> or the empty string.\<close>

definition api_key_unset :: "env \<Rightarrow> bool" where
  "api_key_unset env = (case openai_api_key env of None \<Rightarrow> True | Some k \<Rightarrow> k = [])"

definition messages_of :: "QueryRequest \<Rightarrow> (string \<times> string) list" where
  "messages_of query_request =
     [(''system'', ''You are a women's safety advisor with expertise in urban navigation, personal security, and emergency assistance.''),
      (''user'', question query_request)]"

text \<open>
  Line 134, \<^verbatim>\<open>response.choices[0].message.content.strip()\<close>: no choice is an
  \<^verbatim>\<open>IndexError\<close>, a choice without text an \<^verbatim>\<open>AttributeError\<close>.
\<close>

definition first_answer :: "chat_completion \<Rightarrow> exn + string" where
  "first_answer response =
     (case choices response of
        [] \<Rightarrow> Inl IndexError
      | c # _ \<Rightarrow> (case c of None \<Rightarrow> Inl AttributeError | Some content \<Rightarrow> Inr (strip content)))"

text \<open>Lines 116 to 135: the body of the \<^verbatim>\<open>try\<close>.\<close>

definition ask_ai_body :: "env \<Rightarrow> QueryRequest \<Rightarrow> json io" where
  "ask_ai_body env query_request =
     (if api_key_unset env then raise_exc (HTTPException 500 ''OpenAI API key is not set.'')
      else
      bind_io (provider_call
                 (Call_ChatCompletion_create ''gpt-4o'' (messages_of query_request) 150 0.7)
                 (\<lambda>calls. ChatCompletion_create env calls ''gpt-4o'' (messages_of query_request) 150 0.7))
        (\<lambda>response.
      bind_io (lift (first_answer response)) (\<lambda>answer.
      ret (JDict [(''response'', JStr answer)]))))"

text \<open>Lines 136 to 139: the only handler, for every exception of the body.\<close>

definition ask_ai_handler :: "env \<Rightarrow> exn \<Rightarrow> json io" where
  "ask_ai_handler env e =
     raise_exc (HTTPException 500 (''Unexpected error with AI response: '' @ str_exc env e))"

definition ask_ai :: "env \<Rightarrow> QueryRequest \<Rightarrow> json io" where
  "ask_ai env query_request = try_except (ask_ai_body env query_request) (ask_ai_handler env)"

section \<open>\<^verbatim>\<open>POST /get-safety-score\<close>\<close>

text \<open>\<^verbatim>\<open>d.get(k, default)\<close>: a method of \<^verbatim>\<open>dict\<close> only.\<close>

fun dict_get :: "json \<Rightarrow> string \<Rightarrow> json \<Rightarrow> exn + json" where
  "dict_get (JDict kvs) k d = Inr (case map_of kvs k of None \<Rightarrow> d | Some v \<Rightarrow> v)"
| "dict_get v k d = Inl AttributeError"

text \<open>\<^verbatim>\<open>f"Bearer {os.getenv('INFERELL_API_KEY')}"\<close>; an unset variable prints as \<^verbatim>\<open>None\<close>.\<close>

definition authorization :: "env \<Rightarrow> string" where
  "authorization env =
     ''Bearer '' @ (case INFERELL_API_KEY env of None \<Rightarrow> ''None'' | Some k \<Rightarrow> k)"

text \<open>
  Lines 149 to 163: the body of the \<^verbatim>\<open>try\<close>. The call expression of line 152 starts
  by reading the name \<^verbatim>\<open>requests\<close>, before any of its arguments.
\<close>

definition get_safety_score_body :: "env \<Rightarrow> json \<Rightarrow> json io" where
  "get_safety_score_body env route =
     (let payload = JDict [(''route'', route)] in
      bind_io (lift (load_global ''requests'')) (\<lambda>_.
      bind_io (provider_call
                 (Call_requests_post ''https://api.inferell.ai/v1/safety_score''
                    (authorization env) payload)
                 (\<lambda>calls. requests_post env calls ''https://api.inferell.ai/v1/safety_score''
                           (authorization env) payload)) (\<lambda>inferell_response.
      if status_code inferell_response = 200
      then
        bind_io (lift (json_result inferell_response)) (\<lambda>safety_data.
        bind_io (lift (dict_get safety_data ''score'' (JStr ''N/A''))) (\<lambda>score.
        ret (JDict [(''safety_score'', score)])))
      else ret (JDict [(''safety_score'', JStr ''Error fetching safety score'')]))))"

text \<open>Lines 164 to 166.\<close>

definition get_safety_score_handler :: "exn \<Rightarrow> json io" where
  "get_safety_score_handler e = raise_exc (HTTPException 500 ''Could not fetch safety score.'')"

definition get_safety_score :: "env \<Rightarrow> json \<Rightarrow> json io" where
  "get_safety_score env route =
     try_except (get_safety_score_body env route) get_safety_score_handler"

section \<open>\<^verbatim>\<open>GET /alerts\<close> and \<^verbatim>\<open>GET /\<close>\<close>

definition get_real_time_alerts :: "json io" where
  "get_real_time_alerts =
     ret (JDict
       [(''police_stations'', JNum 2),
        (''public_facilities'', JNum 5),
        (''crowd_density'', JStr ''Medium'')])"

definition read_root :: "json io" where
  "read_root = ret (JDict [(''message'', JStr ''Welcome to the Safe Streets API'')])"

section \<open>The alert summary as the specification words it\<close>

text \<open>
  From the four coordinate components of the two endpoints: 3 police stations if the
  origin's latitude is greater than the destination's, else 2; 5 public facilities if
  the origin's longitude is less than the destination's, else 3; crowd density High if
  the origin's latitude is less than the destination's, else Medium.
\<close>

definition alert_summary :: "real \<Rightarrow> real \<Rightarrow> real \<Rightarrow> real \<Rightarrow> json" where
  "alert_summary origin_longitude origin_latitude destination_longitude destination_latitude =
     JDict
       [(''police_stations'', JNum (if origin_latitude > destination_latitude then 3 else 2)),
        (''public_facilities'', JNum (if origin_longitude < destination_longitude then 5 else 3)),
        (''crowd_density'',
           JStr (if origin_latitude < destination_latitude then ''High'' else ''Medium''))]"

section \<open>Example environments\<close>

text \<open>GeoJSON as the providers send it, cut down to the members the handler reads.\<close>

definition feature :: "json \<Rightarrow> json" where
  "feature coords = JDict [(''type'', JStr ''Feature''), (''geometry'', JDict [(''coordinates'', coords)])]"

definition feature_collection :: "json list \<Rightarrow> json" where
  "feature_collection fs = JDict [(''type'', JStr ''FeatureCollection''), (''features'', JList fs)]"

definition position :: "real \<Rightarrow> real \<Rightarrow> json" where
  "position longitude latitude = JList [JNum longitude, JNum latitude]"

text \<open>
  One rendering of \<^verbatim>\<open>str(e)\<close>: status code, colon and detail for an \<open>HTTPException\<close>, as
  Starlette prints it, the message for an \<open>ApiError\<close>, and for the exceptions of the
  interpreter a text of the kind it gives.
\<close>

fun decimal :: "nat \<Rightarrow> string" where
  "decimal n =
     (if n < 10 then [char_of (48 + n)] else decimal (n div 10) @ [char_of (48 + n mod 10)])"

fun example_str :: "exn \<Rightarrow> string" where
  "example_str (HTTPException code detail) = decimal code @ '': '' @ detail"
| "example_str (ApiError m) = m"
| "example_str IndexError = ''list index out of range''"
| "example_str (KeyError k) =
     (case k of JStr key \<Rightarrow> [CHR 0x27] @ key @ [CHR 0x27] | _ \<Rightarrow> ''key'')"
| "example_str TypeError = ''object is not subscriptable''"
| "example_str AttributeError = ''object has no attribute''"
| "example_str (NameError name) = ''name '' @ [CHR 0x27] @ name @ [CHR 0x27] @ '' is not defined''"
| "example_str (OtherException m) = m"

text \<open>
  No key is set, the geocoder finds nothing, the router finds no route, the chat
  provider returns no choice and the scoring endpoint answers 503.
\<close>

definition empty_world :: env where
  "empty_world =
     \<lparr>openai_api_key = None,
      INFERELL_API_KEY = None,
      pelias_search = (\<lambda>calls address. Inr (feature_collection [])),
      directions = (\<lambda>calls coordinates profile format. Inr (feature_collection [])),
      ChatCompletion_create = (\<lambda>calls model messages max_tokens temperature. Inr \<lparr>choices = []\<rparr>),
      requests_post =
        (\<lambda>calls url auth payload.
           Inr \<lparr>status_code = 503, json_result = Inl (OtherException ''Expecting value'')\<rparr>),
      str_exc = example_str\<rparr>"

text \<open>
  The example of the specification: Times Square at (-73.9857, 40.7484), Central Park at
  (-73.9654, 40.7829), and a router that answers with two routes.
\<close>

definition manhattan_search :: "call list \<Rightarrow> string \<Rightarrow> exn + json" where
  "manhattan_search calls address =
     (if address = ''Times Square, NYC''
      then Inr (feature_collection [feature (position (- 73.9857) 40.7484)])
      else if address = ''Central Park, NYC''
      then Inr (feature_collection [feature (position (- 73.9654) 40.7829)])
      else Inr (feature_collection []))"

definition broadway :: json where
  "broadway = JList [position (- 73.9857) 40.7484, position (- 73.9654) 40.7829]"

definition seventh_avenue :: json where
  "seventh_avenue =
     JList [position (- 73.9857) 40.7484, position (- 73.9790) 40.7650,
            position (- 73.9654) 40.7829]"

definition manhattan :: env where
  "manhattan =
     empty_world
       \<lparr>pelias_search := manhattan_search,
        directions := (\<lambda>calls coordinates profile format.
           Inr (feature_collection [feature broadway, feature seventh_avenue]))\<rparr>"

definition times_square_to_central_park :: RouteRequest where
  "times_square_to_central_park =
     \<lparr>origin = ''Times Square, NYC'', destination = ''Central Park, NYC''\<rparr>"

text \<open>The router refuses: once for a point off the road network, once for the quota.\<close>

definition off_road :: env where
  "off_road =
     manhattan
       \<lparr>directions := (\<lambda>calls coordinates profile format.
           Inl (ApiError ''404 (Could not find routable point within a radius of 350.0 meters)''))\<rparr>"

definition over_quota :: env where
  "over_quota =
     manhattan
       \<lparr>directions := (\<lambda>calls coordinates profile format. Inl (ApiError ''403 (Quota exceeded)''))\<rparr>"

text \<open>A geocoder whose first feature has a position of one component only.\<close>

definition truncated :: env where
  "truncated =
     manhattan
       \<lparr>pelias_search := (\<lambda>calls address.
           Inr (feature_collection [feature (JList [JNum (- 73.9857)])]))\<rparr>"

text \<open>A geocoder that answers with an error object, which has no member \<^verbatim>\<open>features\<close>.\<close>

definition malformed :: env where
  "malformed =
     manhattan
       \<lparr>pelias_search := (\<lambda>calls address. Inr (JDict [(''error'', JStr ''Rate limit exceeded'')]))\<rparr>"

definition round_trip :: RouteRequest where
  "round_trip = \<lparr>origin = ''Times Square, NYC'', destination = ''Times Square, NYC''\<rparr>"

text \<open>A scoring endpoint that answers 200 with an object that has no \<^verbatim>\<open>score\<close>.\<close>

definition scoring_without_score :: env where
  "scoring_without_score =
     empty_world
       \<lparr>requests_post := (\<lambda>calls url auth payload.
           Inr \<lparr>status_code = 200, json_result = Inr (JDict [])\<rparr>)\<rparr>"

text \<open>
  A router's answer with its list of features replaced: \<^verbatim>\<open>{**routes, 'features': fs}\<close>.
\<close>

fun with_features :: "json list \<Rightarrow> json \<Rightarrow> json" where
  "with_features fs (JDict kvs) = JDict ((''features'', JList fs) # kvs)"
| "with_features fs v = v"

section \<open>Properties\<close>

subsection \<open>Names\<close>

text \<open>
  The module-level names that the four handlers read, \<^verbatim>\<open>requests\<close> apart, are bound; their
  lookup cannot fail and the models above leave it out.
\<close>

lemma other_names_are_bound:
  "list_all (\<lambda>name. load_global name = Inr ())
     [''ors_client'', ''openrouteservice'', ''HTTPException'', ''openai'', ''os'']"
  by (simp add: load_global_def module_globals_def)

lemma requests_is_unbound: "load_global ''requests'' = Inl (NameError ''requests'')"
  by (simp add: load_global_def module_globals_def)

subsection \<open>Outcomes of the combinators\<close>

lemma ret_apply [simp]: "ret x calls = (Inr x, calls)"
  by (simp add: ret_def)

lemma raise_exc_apply [simp]: "raise_exc e calls = (Inl e, calls)"
  by (simp add: raise_exc_def)

lemma lift_apply [simp]: "lift r calls = (r, calls)"
  by (simp add: lift_def)

lemma provider_call_apply [simp]: "provider_call c answer calls = (answer calls, calls @ [c])"
  by (simp add: provider_call_def)

lemma bind_io_success:
  "bind_io m f calls = (Inr y, calls'') \<longleftrightarrow>
     (\<exists>x calls'. m calls = (Inr x, calls') \<and> f x calls' = (Inr y, calls''))"
  by (auto simp: bind_io_def split: prod.splits sum.splits)

lemma bind_r_Inl [simp]: "bind_r (Inl e) f = Inl e"
  by (simp add: bind_r_def)

lemma bind_r_Inr [simp]: "bind_r (Inr x) f = f x"
  by (simp add: bind_r_def)

lemma bind_r_success: "bind_r r f = Inr y \<longleftrightarrow> (\<exists>x. r = Inr x \<and> f x = Inr y)"
  by (cases r) simp_all

lemma directions_handler_raises: "\<exists>e'. directions_handler env e calls = (Inl e', calls)"
  by (cases e) (simp_all add: directions_handler_def Let_def)

lemma get_safe_route_handler_raises: "\<exists>e'. get_safe_route_handler env e calls = (Inl e', calls)"
  by (cases e) (simp_all add: get_safe_route_handler_def)

lemma try_directions_success:
  "try_except (provider_call c answer) (directions_handler env) calls = (Inr routes, calls') \<longleftrightarrow>
     answer calls = Inr routes \<and> calls' = calls @ [c]"
proof (cases "answer calls")
  case (Inl e)
  then show ?thesis
    using directions_handler_raises [of env e "calls @ [c]"] by (auto simp: try_except_def)
next
  case (Inr r)
  then show ?thesis by (auto simp: try_except_def)
qed

lemma get_safe_route_success:
  "get_safe_route env req calls = (Inr resp, calls') \<longleftrightarrow>
     get_safe_route_body env req calls = (Inr resp, calls')"
proof (cases "get_safe_route_body env req calls")
  case (Pair r c)
  show ?thesis
  proof (cases r)
    case (Inl e)
    with Pair show ?thesis
      using get_safe_route_handler_raises [of env e c]
      by (auto simp: get_safe_route_def try_except_def)
  next
    case (Inr x)
    with Pair show ?thesis by (simp add: get_safe_route_def try_except_def)
  qed
qed

text \<open>What a run of the body that returns has gone through.\<close>

lemma get_safe_route_body_success:
  assumes "get_safe_route_body env req calls = (Inr resp, calls')"
  obtains origin_search destination_search origin_coords destination_coords routes
    route_coords alerts
  where "pelias_search env calls (origin req) = Inr origin_search"
    and "pelias_search env (calls @ [Call_pelias_search (origin req)]) (destination req)
           = Inr destination_search"
    and "features_missing origin_search destination_search = Inr False"
    and "first_feature_coordinates origin_search = Inr origin_coords"
    and "first_feature_coordinates destination_search = Inr destination_coords"
    and "directions env
           (calls @ [Call_pelias_search (origin req), Call_pelias_search (destination req)])
           [origin_coords, destination_coords] ''driving-car'' ''geojson'' = Inr routes"
    and "first_feature_coordinates routes = Inr route_coords"
    and "alerts_of origin_coords destination_coords = Inr alerts"
    and "resp = JDict
           [(''origin'', JDict [(''address'', JStr (origin req)), (''coordinates'', origin_coords)]),
            (''destination'', JDict [(''address'', JStr (destination req)),
                                     (''coordinates'', destination_coords)]),
            (''route'', route_coords),
            (''alerts'', alerts)]"
    and "calls' = calls @ [Call_pelias_search (origin req), Call_pelias_search (destination req),
           Call_directions [origin_coords, destination_coords] ''driving-car'' ''geojson'']"
  using assms unfolding get_safe_route_body_def
  by (auto simp: bind_io_success try_directions_success split: if_splits)


lemma alerts_of_numbers:
  "alerts_of (JList (JNum olon # JNum olat # orest)) (JList (JNum dlon # JNum dlat # drest))
     = Inr (alert_summary olon olat dlon dlat)"
  by (simp add: alerts_of_def alert_summary_def)


declare decimal.simps [simp del]

lemma decimal_404: "decimal 404 = ''404''"
  by code_simp

lemma decimal_500: "decimal 500 = ''500''"
  by code_simp

lemmas example_defs =
  manhattan_def empty_world_def manhattan_search_def times_square_to_central_park_def
  feature_collection_def feature_def position_def broadway_def seventh_avenue_def
  off_road_def over_quota_def truncated_def malformed_def round_trip_def
  scoring_without_score_def decimal_404 decimal_500

lemmas handler_defs =
  get_safe_route_def get_safe_route_body_def get_safe_route_handler_def directions_handler_def
  features_missing_def first_feature_coordinates_def geometry_coordinates_def alerts_of_def
  coordinates_not_found_def too_remote_def bind_io_def try_except_def


lemma getitem_idx_truthy: "getitem_idx fs i = Inr f \<Longrightarrow> truthy fs"
  by (cases fs) (auto split: if_splits)

lemma first_feature_coordinates_success:
  assumes "first_feature_coordinates x = Inr c"
  obtains kvs f fs where "x = JDict kvs" and "getitem_key x ''features'' = Inr (JList (f # fs))"
    and "geometry_coordinates f = Inr c"
proof -
  from assms obtain v f where v: "getitem_key x ''features'' = Inr v"
    and f: "getitem_idx v 0 = Inr f" and c: "geometry_coordinates f = Inr c"
    by (auto simp: first_feature_coordinates_def bind_r_success)
  from v obtain kvs where x: "x = JDict kvs"
    by (cases x) simp_all
  from c have "\<exists>g. f = JDict g"
    by (cases f) (simp_all add: geometry_coordinates_def)
  with f obtain fs where "v = JList (f # fs)"
    by (cases v) (auto split: if_splits simp: neq_Nil_conv nth_Cons')
  with x v c that show thesis by blast
qed

lemma features_missing_False:
  assumes "first_feature_coordinates a = Inr ca" and "first_feature_coordinates b = Inr cb"
  shows "features_missing a b = Inr False"
proof -
  from assms(1) obtain f fs where "getitem_key a ''features'' = Inr (JList (f # fs))"
    by (rule first_feature_coordinates_success)
  moreover from assms(2) obtain g gs where "getitem_key b ''features'' = Inr (JList (g # gs))"
    by (rule first_feature_coordinates_success)
  ultimately show ?thesis by (simp add: features_missing_def)
qed

text \<open>The converse: a run whose steps all return does return, with this response.\<close>

lemma get_safe_route_body_returns:
  assumes "pelias_search env calls (origin req) = Inr origin_search"
    and "pelias_search env (calls @ [Call_pelias_search (origin req)]) (destination req)
           = Inr destination_search"
    and "first_feature_coordinates origin_search = Inr origin_coords"
    and "first_feature_coordinates destination_search = Inr destination_coords"
    and "directions env
           (calls @ [Call_pelias_search (origin req), Call_pelias_search (destination req)])
           [origin_coords, destination_coords] ''driving-car'' ''geojson'' = Inr routes"
    and "first_feature_coordinates routes = Inr route_coords"
    and "alerts_of origin_coords destination_coords = Inr alerts"
  shows "get_safe_route_body env req calls =
    (Inr (JDict
           [(''origin'', JDict [(''address'', JStr (origin req)), (''coordinates'', origin_coords)]),
            (''destination'', JDict [(''address'', JStr (destination req)),
                                     (''coordinates'', destination_coords)]),
            (''route'', route_coords),
            (''alerts'', alerts)]),
     calls @ [Call_pelias_search (origin req), Call_pelias_search (destination req),
           Call_directions [origin_coords, destination_coords] ''driving-car'' ''geojson''])"
proof -
  from assms(6) obtain f fs where "getitem_key routes ''features'' = Inr (JList (f # fs))"
    by (rule first_feature_coordinates_success)
  with assms features_missing_False [OF assms(3) assms(4)] show ?thesis
    by (simp add: get_safe_route_body_def bind_io_def try_except_def)
qed


lemma get_safe_route_raises:
  "get_safe_route_body env req calls = (Inl e, calls') \<Longrightarrow>
     get_safe_route env req calls = get_safe_route_handler env e calls'"
  by (simp add: get_safe_route_def try_except_def)

lemma manhattan_run:
  "get_safe_route manhattan times_square_to_central_park [] =
     (Inr (JDict
        [(''origin'', JDict [(''address'', JStr ''Times Square, NYC''),
                             (''coordinates'', position (- 73.9857) 40.7484)]),
         (''destination'', JDict [(''address'', JStr ''Central Park, NYC''),
                                  (''coordinates'', position (- 73.9654) 40.7829)]),
         (''route'', broadway),
         (''alerts'', JDict [(''police_stations'', JNum 2), (''public_facilities'', JNum 5),
                             (''crowd_density'', JStr ''High'')])]),
      [Call_pelias_search ''Times Square, NYC'', Call_pelias_search ''Central Park, NYC'',
       Call_directions [position (- 73.9857) 40.7484, position (- 73.9654) 40.7829]
         ''driving-car'' ''geojson''])"
  by (simp add: example_defs handler_defs)

lemma round_trip_run:
  "get_safe_route manhattan round_trip [] =
     (Inr (JDict
        [(''origin'', JDict [(''address'', JStr ''Times Square, NYC''),
                             (''coordinates'', position (- 73.9857) 40.7484)]),
         (''destination'', JDict [(''address'', JStr ''Times Square, NYC''),
                                  (''coordinates'', position (- 73.9857) 40.7484)]),
         (''route'', broadway),
         (''alerts'', JDict [(''police_stations'', JNum 2), (''public_facilities'', JNum 3),
                             (''crowd_density'', JStr ''Medium'')])]),
      [Call_pelias_search ''Times Square, NYC'', Call_pelias_search ''Times Square, NYC'',
       Call_directions [position (- 73.9857) 40.7484, position (- 73.9857) 40.7484]
         ''driving-car'' ''geojson''])"
  by (simp add: example_defs handler_defs)

text \<open>
  Claim C1. When \<open>get_safe_route\<close> returns and the first features found for origin and
  destination carry the positions \<open>(olon, olat)\<close> and \<open>(dlon, dlat)\<close>, the alerts of the
  response are the summary the specification derives from these four numbers: 3 police
  stations if \<open>olat > dlat\<close> else 2, 5 public facilities if \<open>olon < dlon\<close> else 3, crowd
  density High if \<open>olat < dlat\<close> else Medium. Equal latitudes give 2 and Medium, equal
  longitudes give 3.
\<close>

theorem alerts_from_endpoint_coordinates:
  assumes "get_safe_route env req calls = (Inr resp, calls')"
    and "pelias_search env calls (origin req) = Inr origin_search"
    and "first_feature_coordinates origin_search = Inr (JList (JNum olon # JNum olat # orest))"
    and "pelias_search env (calls @ [Call_pelias_search (origin req)]) (destination req)
           = Inr destination_search"
    and "first_feature_coordinates destination_search
           = Inr (JList (JNum dlon # JNum dlat # drest))"
  shows "getitem_key resp ''alerts'' = Inr (alert_summary olon olat dlon dlat)
    \<and> (olat = dlat \<longrightarrow>
         getitem_key resp ''alerts'' =
           Inr (JDict [(''police_stations'', JNum 2),
                       (''public_facilities'', JNum (if olon < dlon then 5 else 3)),
                       (''crowd_density'', JStr ''Medium'')]))
    \<and> (olon = dlon \<longrightarrow>
         getitem_key resp ''alerts'' =
           Inr (JDict [(''police_stations'', JNum (if olat > dlat then 3 else 2)),
                       (''public_facilities'', JNum 3),
                       (''crowd_density'', JStr (if olat < dlat then ''High'' else ''Medium''))]))"
proof -
  from assms(1) have "get_safe_route_body env req calls = (Inr resp, calls')"
    by (simp add: get_safe_route_success)
  then obtain origin_coords destination_coords alerts where
    "alerts_of origin_coords destination_coords = Inr alerts"
    "getitem_key resp ''alerts'' = Inr alerts"
    "first_feature_coordinates origin_search = Inr origin_coords"
    "first_feature_coordinates destination_search = Inr destination_coords"
    using assms(2,4) by (elim get_safe_route_body_success) simp
  with assms(3,5) have "getitem_key resp ''alerts'' = Inr (alert_summary olon olat dlon dlat)"
    by (simp add: alerts_of_numbers)
  then show ?thesis by (simp add: alert_summary_def)
qed

theorem alerts_from_endpoint_coordinates_witness:
  "(\<exists>resp calls'.
      get_safe_route manhattan times_square_to_central_park [] = (Inr resp, calls')
      \<and> getitem_key resp ''alerts'' =
          Inr (JDict [(''police_stations'', JNum 2), (''public_facilities'', JNum 5),
                      (''crowd_density'', JStr ''High'')]))
   \<and> (\<exists>resp calls'.
      get_safe_route manhattan round_trip [] = (Inr resp, calls')
      \<and> getitem_key resp ''alerts'' =
          Inr (JDict [(''police_stations'', JNum 2), (''public_facilities'', JNum 3),
                      (''crowd_density'', JStr ''Medium'')]))"
proof -
  let ?ts = "feature_collection [feature (position (- 73.9857) 40.7484)]"
  let ?cp = "feature_collection [feature (position (- 73.9654) 40.7829)]"
  have o: "pelias_search manhattan [] (origin times_square_to_central_park) = Inr ?ts"
    and d: "pelias_search manhattan
              ([] @ [Call_pelias_search (origin times_square_to_central_park)])
              (destination times_square_to_central_park) = Inr ?cp"
    and o': "pelias_search manhattan [] (origin round_trip) = Inr ?ts"
    and d': "pelias_search manhattan ([] @ [Call_pelias_search (origin round_trip)])
              (destination round_trip) = Inr ?ts"
    by (simp_all add: manhattan_def empty_world_def manhattan_search_def
        times_square_to_central_park_def round_trip_def)
  have fc: "first_feature_coordinates (feature_collection [feature (position x y)])
      = Inr (JList (JNum x # JNum y # []))" for x y
    by (simp add: first_feature_coordinates_def geometry_coordinates_def feature_collection_def
        feature_def position_def)
  have a: "getitem_key r ''alerts'' =
          Inr (JDict [(''police_stations'', JNum 2), (''public_facilities'', JNum 5),
                      (''crowd_density'', JStr ''High'')])"
    if "get_safe_route manhattan times_square_to_central_park [] = (Inr r, c)" for r c
    using alerts_from_endpoint_coordinates [OF that o fc d fc]
    by (simp add: alert_summary_def)
  have b: "getitem_key r ''alerts'' =
          Inr (JDict [(''police_stations'', JNum 2), (''public_facilities'', JNum 3),
                      (''crowd_density'', JStr ''Medium'')])"
    if "get_safe_route manhattan round_trip [] = (Inr r, c)" for r c
    using alerts_from_endpoint_coordinates [OF that o' fc d' fc]
    by (simp add: alert_summary_def)
  from a b show ?thesis
    using manhattan_run round_trip_run by blast
qed

subsection \<open>Failures raised inside the body\<close>

lemma missing_features_outcome:
  assumes "pelias_search env calls (origin req) = Inr origin_search"
    and "pelias_search env (calls @ [Call_pelias_search (origin req)]) (destination req)
           = Inr destination_search"
    and "features_missing origin_search destination_search = Inr True"
  shows "get_safe_route_body env req calls =
           (Inl (HTTPException 404 coordinates_not_found),
            calls @ [Call_pelias_search (origin req), Call_pelias_search (destination req)])"
    and "get_safe_route env req calls =
           (Inl (HTTPException 500
                  (''Unexpected error occurred: ''
                     @ str_exc env (HTTPException 404 coordinates_not_found))),
            calls @ [Call_pelias_search (origin req), Call_pelias_search (destination req)])"
proof -
  show body: "get_safe_route_body env req calls =
           (Inl (HTTPException 404 coordinates_not_found),
            calls @ [Call_pelias_search (origin req), Call_pelias_search (destination req)])"
    using assms by (simp add: get_safe_route_body_def bind_io_def)
  show "get_safe_route env req calls =
           (Inl (HTTPException 500
                  (''Unexpected error occurred: ''
                     @ str_exc env (HTTPException 404 coordinates_not_found))),
            calls @ [Call_pelias_search (origin req), Call_pelias_search (destination req)])"
    by (simp add: get_safe_route_raises [OF body] get_safe_route_handler_def)
qed

lemma directions_ApiError_outcome:
  assumes "pelias_search env calls (origin req) = Inr origin_search"
    and "pelias_search env (calls @ [Call_pelias_search (origin req)]) (destination req)
           = Inr destination_search"
    and "first_feature_coordinates origin_search = Inr origin_coords"
    and "first_feature_coordinates destination_search = Inr destination_coords"
    and "directions env
           (calls @ [Call_pelias_search (origin req), Call_pelias_search (destination req)])
           [origin_coords, destination_coords] ''driving-car'' ''geojson'' = Inl (ApiError m)"
  shows "get_safe_route env req calls =
           (Inl (HTTPException 500
                  (''Unexpected error occurred: '' @ str_exc env
                     (if str_contains ''Could not find routable point within a radius''
                           (str_exc env (ApiError m))
                      then HTTPException 404 too_remote
                      else HTTPException 500
                             (''Error generating route: '' @ str_exc env (ApiError m))))),
            calls @ [Call_pelias_search (origin req), Call_pelias_search (destination req),
              Call_directions [origin_coords, destination_coords] ''driving-car'' ''geojson''])"
proof -
  have "get_safe_route_body env req calls =
          (Inl (if str_contains ''Could not find routable point within a radius''
                     (str_exc env (ApiError m))
                then HTTPException 404 too_remote
                else HTTPException 500 (''Error generating route: '' @ str_exc env (ApiError m))),
           calls @ [Call_pelias_search (origin req), Call_pelias_search (destination req),
              Call_directions [origin_coords, destination_coords] ''driving-car'' ''geojson''])"
    using assms features_missing_False [OF assms(3) assms(4)]
    by (simp add: get_safe_route_body_def bind_io_def try_except_def directions_handler_def)
  then show ?thesis
    by (simp add: get_safe_route_raises get_safe_route_handler_def)
qed

text \<open>
  Claim C2 asks for a 404 with the coordinates-not-found detail when the geocoder finds no
  feature. Line 53 raises that exception inside the outer \<^verbatim>\<open>try\<close>, where the handler of
  line 106 takes it: with a geocoder that finds nothing, the handler ends with status 500
  and the detail of line 108 around the text of the 404.
\<close>

theorem empty_geocoding_answers_500:
  "get_safe_route empty_world times_square_to_central_park [] =
     (Inl (HTTPException 500
        ''Unexpected error occurred: 404: Could not find valid coordinates for the specified addresses.''),
      [Call_pelias_search ''Times Square, NYC'', Call_pelias_search ''Central Park, NYC''])"
  by (simp add: example_defs handler_defs)

text \<open>
  Claim C4 asks for a 404 with the too-remote detail when the router reports no routable
  point within a radius, and for a 500 with detail \<^verbatim>\<open>Error generating route: ...\<close> on its
  other errors. Lines 73 to 79 raise both inside the outer \<^verbatim>\<open>try\<close>, and the handler of
  line 106 takes them: both runs end with status 500 and the detail of line 108.
\<close>

theorem router_ApiError_answers_500:
  "get_safe_route off_road times_square_to_central_park [] =
     (Inl (HTTPException 500
        ''Unexpected error occurred: 404: Could not find a route to the specified destination. It may be too remote for routing.''),
      [Call_pelias_search ''Times Square, NYC'', Call_pelias_search ''Central Park, NYC'',
       Call_directions [position (- 73.9857) 40.7484, position (- 73.9654) 40.7829]
         ''driving-car'' ''geojson''])
   \<and> get_safe_route over_quota times_square_to_central_park [] =
     (Inl (HTTPException 500
        ''Unexpected error occurred: 500: Error generating route: 403 (Quota exceeded)''),
      [Call_pelias_search ''Times Square, NYC'', Call_pelias_search ''Central Park, NYC'',
       Call_directions [position (- 73.9857) 40.7484, position (- 73.9654) 40.7829]
         ''driving-car'' ''geojson''])"
  by (simp add: example_defs handler_defs)

text \<open>
  Claim C8. When the body of the \<^verbatim>\<open>try\<close> raises \<^verbatim>\<open>IndexError\<close>, \<open>get_safe_route\<close> fails
  with status 404 and the coordinates-not-found detail. When it raises any other
  exception \<open>e\<close>, \<open>get_safe_route\<close> fails with status 500 and a detail that ends with
  \<^verbatim>\<open>str(e)\<close>, after \<^verbatim>\<open>Error generating route: \<close> for an \<open>ApiError\<close> and after
  \<^verbatim>\<open>Unexpected error occurred: \<close> for the others.
\<close>

theorem index_error_is_not_found:
  assumes "get_safe_route_body env req calls = (Inl e, calls')"
  shows "(e = IndexError \<longrightarrow>
            get_safe_route env req calls =
              (Inl (HTTPException 404
                 ''Could not find valid coordinates for the specified addresses.''), calls'))
       \<and> (e \<noteq> IndexError \<longrightarrow>
            get_safe_route env req calls =
              (Inl (HTTPException 500
                 ((case e of ApiError m \<Rightarrow> ''Error generating route: ''
                           | _ \<Rightarrow> ''Unexpected error occurred: '') @ str_exc env e)), calls'))"
  by (cases e)
    (simp_all add: get_safe_route_raises [OF assms] get_safe_route_handler_def
       coordinates_not_found_def)

theorem index_error_is_not_found_witness:
  "get_safe_route_body truncated times_square_to_central_park [] =
     (Inl IndexError,
      [Call_pelias_search ''Times Square, NYC'', Call_pelias_search ''Central Park, NYC'',
       Call_directions [JList [JNum (- 73.9857)], JList [JNum (- 73.9857)]]
         ''driving-car'' ''geojson''])
   \<and> get_safe_route truncated times_square_to_central_park [] =
     (Inl (HTTPException 404 ''Could not find valid coordinates for the specified addresses.''),
      [Call_pelias_search ''Times Square, NYC'', Call_pelias_search ''Central Park, NYC'',
       Call_directions [JList [JNum (- 73.9857)], JList [JNum (- 73.9857)]]
         ''driving-car'' ''geojson''])
   \<and> get_safe_route_body malformed times_square_to_central_park [] =
     (Inl (KeyError (JStr ''features'')),
      [Call_pelias_search ''Times Square, NYC'', Call_pelias_search ''Central Park, NYC''])
   \<and> get_safe_route malformed times_square_to_central_park [] =
     (Inl (HTTPException 500
        (''Unexpected error occurred: '' @ [CHR 0x27] @ ''features'' @ [CHR 0x27])),
      [Call_pelias_search ''Times Square, NYC'', Call_pelias_search ''Central Park, NYC''])"
proof -
  have t: "get_safe_route_body truncated times_square_to_central_park [] =
     (Inl IndexError,
      [Call_pelias_search ''Times Square, NYC'', Call_pelias_search ''Central Park, NYC'',
       Call_directions [JList [JNum (- 73.9857)], JList [JNum (- 73.9857)]]
         ''driving-car'' ''geojson''])"
    by (simp add: example_defs handler_defs)
  have m: "get_safe_route_body malformed times_square_to_central_park [] =
     (Inl (KeyError (JStr ''features'')),
      [Call_pelias_search ''Times Square, NYC'', Call_pelias_search ''Central Park, NYC''])"
    by (simp add: example_defs handler_defs)
  have s: "str_exc malformed = example_str"
    by (simp add: example_defs)
  from index_error_is_not_found [OF t] index_error_is_not_found [OF m] t m s
  show ?thesis by simp
qed


subsection \<open>The response of a run that returns\<close>

text \<open>
  Claim C7. When \<open>get_safe_route\<close> returns, the router has answered with a list of
  features that has a first element, and the route of the response is the coordinates of
  the geometry of that first feature. The features after the first have no effect: with
  any other features in their place the run returns the same response.
\<close>

theorem route_is_first_feature_geometry:
  assumes "get_safe_route env req calls = (Inr resp, calls')"
  shows "\<exists>origin_coords destination_coords routes f fs route_coords.
           directions env
             (calls @ [Call_pelias_search (origin req), Call_pelias_search (destination req)])
             [origin_coords, destination_coords] ''driving-car'' ''geojson'' = Inr routes
         \<and> getitem_key routes ''features'' = Inr (JList (f # fs))
         \<and> geometry_coordinates f = Inr route_coords
         \<and> getitem_key resp ''route'' = Inr route_coords
         \<and> (\<forall>fs'. get_safe_route
                      (env\<lparr>directions := (\<lambda>calls coordinates profile format.
                              Inr (with_features (f # fs') routes))\<rparr>) req calls
                    = (Inr resp, calls'))"
proof -
  from assms have body: "get_safe_route_body env req calls = (Inr resp, calls')"
    by (simp add: get_safe_route_success)
  then obtain origin_search destination_search origin_coords destination_coords routes
    route_coords alerts
    where o: "pelias_search env calls (origin req) = Inr origin_search"
      and d: "pelias_search env (calls @ [Call_pelias_search (origin req)]) (destination req)
                = Inr destination_search"
      and oc: "first_feature_coordinates origin_search = Inr origin_coords"
      and dc: "first_feature_coordinates destination_search = Inr destination_coords"
      and r: "directions env
                (calls @ [Call_pelias_search (origin req), Call_pelias_search (destination req)])
                [origin_coords, destination_coords] ''driving-car'' ''geojson'' = Inr routes"
      and rc: "first_feature_coordinates routes = Inr route_coords"
      and al: "alerts_of origin_coords destination_coords = Inr alerts"
      and resp: "resp = JDict
           [(''origin'', JDict [(''address'', JStr (origin req)), (''coordinates'', origin_coords)]),
            (''destination'', JDict [(''address'', JStr (destination req)),
                                     (''coordinates'', destination_coords)]),
            (''route'', route_coords),
            (''alerts'', alerts)]"
      and calls': "calls' = calls @ [Call_pelias_search (origin req),
           Call_pelias_search (destination req),
           Call_directions [origin_coords, destination_coords] ''driving-car'' ''geojson'']"
    by (rule get_safe_route_body_success)
  from rc obtain kvs f fs where routes: "routes = JDict kvs"
    and fs: "getitem_key routes ''features'' = Inr (JList (f # fs))"
    and g: "geometry_coordinates f = Inr route_coords"
    by (rule first_feature_coordinates_success)
  have tail: "get_safe_route
          (env\<lparr>directions := (\<lambda>calls coordinates profile format.
                  Inr (with_features (f # fs') routes))\<rparr>) req calls = (Inr resp, calls')" for fs'
  proof -
    let ?env = "env\<lparr>directions := (\<lambda>calls coordinates profile format.
                  Inr (with_features (f # fs') routes))\<rparr>"
    have "first_feature_coordinates (with_features (f # fs') routes) = Inr route_coords"
      using g by (simp add: routes first_feature_coordinates_def)
    then have "get_safe_route_body ?env req calls = (Inr resp, calls')"
      unfolding resp calls'
      by (intro get_safe_route_body_returns [where origin_search = origin_search
            and destination_search = destination_search]) (simp_all add: o d oc dc al)
    then show ?thesis by (simp add: get_safe_route_success)
  qed
  have rt: "getitem_key resp ''route'' = Inr route_coords"
    by (simp add: resp)
  from r fs g rt tail show ?thesis by blast
qed

theorem route_is_first_feature_geometry_witness:
  "\<exists>resp calls'.
      get_safe_route manhattan times_square_to_central_park [] = (Inr resp, calls')
    \<and> getitem_key resp ''route'' = Inr broadway
    \<and> get_safe_route
        (manhattan\<lparr>directions := (\<lambda>calls coordinates profile format.
           Inr (with_features [feature broadway]
                  (feature_collection [feature broadway, feature seventh_avenue])))\<rparr>)
        times_square_to_central_park [] = (Inr resp, calls')"
proof -
  obtain resp calls' where
    run: "get_safe_route manhattan times_square_to_central_park [] = (Inr resp, calls')"
    using manhattan_run by blast
  from route_is_first_feature_geometry [OF run]
  obtain origin_coords destination_coords routes f fs route_coords
    where r: "directions manhattan
             ([] @ [Call_pelias_search (origin times_square_to_central_park),
                    Call_pelias_search (destination times_square_to_central_park)])
             [origin_coords, destination_coords] ''driving-car'' ''geojson'' = Inr routes"
      and fs: "getitem_key routes ''features'' = Inr (JList (f # fs))"
      and g: "geometry_coordinates f = Inr route_coords"
      and rt: "getitem_key resp ''route'' = Inr route_coords"
      and tail: "\<And>fs'. get_safe_route
                      (manhattan\<lparr>directions := (\<lambda>calls coordinates profile format.
                              Inr (with_features (f # fs') routes))\<rparr>)
                      times_square_to_central_park [] = (Inr resp, calls')"
    by blast
  from r have routes: "routes = feature_collection [feature broadway, feature seventh_avenue]"
    by (simp add: manhattan_def empty_world_def)
  with fs have f: "f = feature broadway"
    by (simp add: feature_collection_def)
  with g have "route_coords = broadway"
    by (simp add: geometry_coordinates_def feature_def)
  with run rt tail [of "[]"] routes f show ?thesis by simp
qed


text \<open>
  Claim C10. When \<open>get_safe_route\<close> returns, the addresses of origin and destination in the
  response are the strings of the request, unchanged.
\<close>

theorem addresses_are_echoed:
  assumes "get_safe_route env req calls = (Inr resp, calls')"
  shows "bind_r (getitem_key resp ''origin'') (\<lambda>point. getitem_key point ''address'')
           = Inr (JStr (origin req))
       \<and> bind_r (getitem_key resp ''destination'') (\<lambda>point. getitem_key point ''address'')
           = Inr (JStr (destination req))"
proof -
  from assms have "get_safe_route_body env req calls = (Inr resp, calls')"
    by (simp add: get_safe_route_success)
  then show ?thesis
    by (elim get_safe_route_body_success) simp
qed

theorem addresses_are_echoed_witness:
  "\<exists>resp calls'.
      get_safe_route manhattan times_square_to_central_park [] = (Inr resp, calls')
    \<and> bind_r (getitem_key resp ''origin'') (\<lambda>point. getitem_key point ''address'')
        = Inr (JStr ''Times Square, NYC'')
    \<and> bind_r (getitem_key resp ''destination'') (\<lambda>point. getitem_key point ''address'')
        = Inr (JStr ''Central Park, NYC'')"
proof -
  obtain resp calls' where
    run: "get_safe_route manhattan times_square_to_central_park [] = (Inr resp, calls')"
    using manhattan_run by blast
  from addresses_are_echoed [OF run] run show ?thesis
    by (simp add: times_square_to_central_park_def)
qed

text \<open>
  Claim C5. With no API key, the body of \<open>ask_ai\<close> raises the configuration error of line
  117 with no call made, and \<open>ask_ai\<close> fails with status 500 and no call made: the
  handler of line 136 re-raises the error with its text behind
  \<^verbatim>\<open>Unexpected error with AI response: \<close>.
\<close>

theorem ask_ai_without_key:
  assumes "api_key_unset env"
  shows "ask_ai_body env query_request calls =
           (Inl (HTTPException 500 ''OpenAI API key is not set.''), calls)
       \<and> ask_ai env query_request calls =
           (Inl (HTTPException 500
                  (''Unexpected error with AI response: ''
                     @ str_exc env (HTTPException 500 ''OpenAI API key is not set.''))), calls)"
  using assms by (simp add: ask_ai_def ask_ai_body_def ask_ai_handler_def try_except_def)

theorem ask_ai_without_key_witness:
  "api_key_unset empty_world
   \<and> ask_ai empty_world \<lparr>question = ''Is it safe to walk home?''\<rparr> [] =
       (Inl (HTTPException 500
          ''Unexpected error with AI response: 500: OpenAI API key is not set.''), [])"
proof -
  have k: "api_key_unset empty_world"
    by (simp add: api_key_unset_def empty_world_def)
  from ask_ai_without_key [OF k, of "\<lparr>question = ''Is it safe to walk home?''\<rparr>" "[]"] k
  show ?thesis by (simp add: empty_world_def decimal_500)
qed

text \<open>
  Claim C9. The module binds no name \<^verbatim>\<open>requests\<close>, so the body of \<open>get_safety_score\<close>
  raises \<^verbatim>\<open>NameError\<close> before any call, and for every route and every environment the
  handler answers status 500 with detail \<^verbatim>\<open>Could not fetch safety score.\<close> and no call is
  made.
\<close>

theorem get_safety_score_always_500:
  "''requests'' \<notin> set module_globals
   \<and> get_safety_score_body env route calls = (Inl (NameError ''requests''), calls)
   \<and> get_safety_score env route calls =
       (Inl (HTTPException 500 ''Could not fetch safety score.''), calls)"
proof -
  have n: "''requests'' \<notin> set module_globals"
    by (simp add: module_globals_def)
  then have b: "get_safety_score_body env route calls = (Inl (NameError ''requests''), calls)"
    by (simp add: get_safety_score_body_def load_global_def bind_io_def)
  then have "get_safety_score env route calls =
       (Inl (HTTPException 500 ''Could not fetch safety score.''), calls)"
    by (simp add: get_safety_score_def get_safety_score_handler_def try_except_def)
  with n b show ?thesis by simp
qed

theorem get_safety_score_always_500_witness:
  "get_safety_score manhattan broadway [] =
     (Inl (HTTPException 500 ''Could not fetch safety score.''), [])"
  using get_safety_score_always_500 [of manhattan broadway "[]"] by simp

text \<open>
  Claim C3 asks for the body \<^verbatim>\<open>{"safety_score": "Error fetching safety score"}\<close> when the
  scoring endpoint answers with a status other than 200, and for \<^verbatim>\<open>"N/A"\<close> when it answers
  200 without a score. With an endpoint that answers 503, and with one that answers 200
  and an empty object, \<open>get_safety_score\<close> fails with status 500 and the endpoint is not
  called.
\<close>

theorem scoring_endpoint_is_never_reached:
  "requests_post empty_world [] ''https://api.inferell.ai/v1/safety_score''
       (authorization empty_world) (JDict [(''route'', JList [])])
     = Inr \<lparr>status_code = 503, json_result = Inl (OtherException ''Expecting value'')\<rparr>
   \<and> get_safety_score empty_world (JList []) [] =
       (Inl (HTTPException 500 ''Could not fetch safety score.''), [])
   \<and> requests_post scoring_without_score [] ''https://api.inferell.ai/v1/safety_score''
       (authorization scoring_without_score) (JDict [(''route'', JList [])])
     = Inr \<lparr>status_code = 200, json_result = Inr (JDict [])\<rparr>
   \<and> get_safety_score scoring_without_score (JList []) [] =
       (Inl (HTTPException 500 ''Could not fetch safety score.''), [])"
  by (simp add: empty_world_def scoring_without_score_def get_safety_score_def
      get_safety_score_body_def get_safety_score_handler_def load_global_def module_globals_def
      bind_io_def try_except_def)

text \<open>
  Claim C6. \<open>get_real_time_alerts\<close> takes no argument, makes no call and returns the
  same literal whatever happened before.
\<close>

theorem get_real_time_alerts_constant:
  "get_real_time_alerts calls =
     (Inr (JDict [(''police_stations'', JNum 2), (''public_facilities'', JNum 5),
                  (''crowd_density'', JStr ''Medium'')]), calls)"
  by (simp add: get_real_time_alerts_def)

theorem get_real_time_alerts_constant_witness:
  "get_real_time_alerts [] =
     (Inr (JDict [(''police_stations'', JNum 2), (''public_facilities'', JNum 5),
                  (''crowd_density'', JStr ''Medium'')]), [])
   \<and> get_real_time_alerts [Call_pelias_search ''Times Square, NYC''] = 
     (Inr (JDict [(''police_stations'', JNum 2), (''public_facilities'', JNum 5),
                  (''crowd_density'', JStr ''Medium'')]),
      [Call_pelias_search ''Times Square, NYC''])"
  using get_real_time_alerts_constant [of "[]"]
    get_real_time_alerts_constant [of "[Call_pelias_search ''Times Square, NYC'']"]
  by simp


end
